theory Spec2Isabelle
  imports Complex_Main "HOL-Library.Word"
begin

section \<open>The Canon VC-C4 driver of ARIA: \<open>include/Aria/ArVCC4.h\<close>\<close>

text \<open>
  The header declares the class \<open>ArVCC4\<close>, its enumerations and constants, and defines
  inline the caller-facing setters and getters. The state machine itself (\<open>camTask\<close>),
  the packet code and \<open>panTilt_i\<close>, \<open>zoom\<close>, \<open>getMaxZoom\<close> are only declared there.

  Conventions of the embedding:
  \<^item> the class is a record with one field per data member, under the member's name;
  \<^item> the C++ type \<open>double\<close> is the type parameter \<open>'d\<close> of the record: the inline methods
    only store, return and add doubles, so what is proved of them holds for every carrier
    with the operations used (a sort constraint names them);
  \<^item> \<open>int\<close> members are HOL integers (the header does no arithmetic on them), \<open>uint8_t\<close>
    enumerators are 8-bit words, pointers and functors are handles (natural numbers),
    \<open>ArTime\<close> is a time stamp in milliseconds;
  \<^item> a method is a function from the object to its result, paired with the updated object
    when the method writes a member.
\<close>

subsection \<open>Constants\<close>

definition MAX_RESPONSE_BYTES :: nat where
  "MAX_RESPONSE_BYTES = 14"

definition BIDIRECTIONAL_TIMEOUT :: int where
  "BIDIRECTIONAL_TIMEOUT = 5000"

definition UNIDIRECTIONAL_TIMEOUT :: int where
  "UNIDIRECTIONAL_TIMEOUT = 300"

definition AUTO_UPDATE_TIME :: int where
  "AUTO_UPDATE_TIME = 2000"

text \<open>
  \<open>TOLERANCE\<close> is \<open>.1\<close> in the header, a \<open>double\<close> literal; here it is the real number 1/10.
\<close>

definition TOLERANCE :: real where
  "TOLERANCE = 1 / 10"

subsection \<open>Enumerations\<close>

datatype Command =
    DELIM | DEVICEID | PANSLEW | TILTSLEW | STOP | INIT | SLEWREQ | ANGLEREQ | PANTILT
  | SETRANGE | PANTILTREQ | INFRARED | PRODUCTNAME | LEDCONTROL | CONTROL | POWER
  | AUTOFOCUS | ZOOMSTOP | GAIN | FOCUS | ZOOM | ZOOMREQ | IRCUTFILTER | DIGITALZOOM
  | FOOTER | RESPONSE | HEADER

fun Command_val :: "Command \<Rightarrow> 8 word" where
  "Command_val DELIM = 0x00"
| "Command_val DEVICEID = 0x30"
| "Command_val PANSLEW = 0x50"
| "Command_val TILTSLEW = 0x51"
| "Command_val STOP = 0x53"
| "Command_val INIT = 0x58"
| "Command_val SLEWREQ = 0x59"
| "Command_val ANGLEREQ = 0x5c"
| "Command_val PANTILT = 0x62"
| "Command_val SETRANGE = 0x64"
| "Command_val PANTILTREQ = 0x63"
| "Command_val INFRARED = 0x76"
| "Command_val PRODUCTNAME = 0x87"
| "Command_val LEDCONTROL = 0x8E"
| "Command_val CONTROL = 0x90"
| "Command_val POWER = 0xA0"
| "Command_val AUTOFOCUS = 0xA1"
| "Command_val ZOOMSTOP = 0xA2"
| "Command_val GAIN = 0xA5"
| "Command_val FOCUS = 0xB0"
| "Command_val ZOOM = 0xB3"
| "Command_val ZOOMREQ = 0xB4"
| "Command_val IRCUTFILTER = 0xB5"
| "Command_val DIGITALZOOM = 0xB7"
| "Command_val FOOTER = 0xEF"
| "Command_val RESPONSE = 0xFE"
| "Command_val HEADER = 0xFF"

datatype CommState = COMM_UNKNOWN | COMM_BIDIRECTIONAL | COMM_UNIDIRECTIONAL

datatype CameraType = CAMERA_VCC4 | CAMERA_C50I

text \<open>Preset limits on movements (\<open>enum Param\<close>).\<close>

datatype Param =
    MAX_PAN | MIN_PAN | MAX_TILT | MIN_TILT | MAX_PAN_SLEW | MIN_PAN_SLEW
  | MAX_TILT_SLEW | MIN_TILT_SLEW | MAX_ZOOM_OPTIC | MIN_ZOOM

fun Param_val :: "Param \<Rightarrow> int" where
  "Param_val MAX_PAN = 98"
| "Param_val MIN_PAN = - 98"
| "Param_val MAX_TILT = 88"
| "Param_val MIN_TILT = - 30"
| "Param_val MAX_PAN_SLEW = 90"
| "Param_val MIN_PAN_SLEW = 1"
| "Param_val MAX_TILT_SLEW = 69"
| "Param_val MIN_TILT_SLEW = 1"
| "Param_val MAX_ZOOM_OPTIC = 1960"
| "Param_val MIN_ZOOM = 0"

text \<open>The error states that the camera can return (\<open>enum Error : uint8_t\<close>).\<close>

datatype Error =
  CAM_ERROR_NONE | CAM_ERROR_BUSY | CAM_ERROR_PARAM | CAM_ERROR_MODE | CAM_ERROR_UNKNOWN

fun Error_val :: "Error \<Rightarrow> 8 word" where
  "Error_val CAM_ERROR_NONE = 0x30"
| "Error_val CAM_ERROR_BUSY = 0x31"
| "Error_val CAM_ERROR_PARAM = 0x35"
| "Error_val CAM_ERROR_MODE = 0x39"
| "Error_val CAM_ERROR_UNKNOWN = 0xFF"

text \<open>The states of the FSM (\<open>enum State\<close>).\<close>

datatype State =
    UNINITIALIZED | STATE_UNKNOWN | INITIALIZING | SETTING_CONTROL_MODE
  | SETTING_INIT_TILT_RATE | SETTING_INIT_PAN_RATE | SETTING_INIT_RANGE | POWERING_ON
  | POWERING_OFF | POWERED_OFF | POWERED_ON | AWAITING_INITIAL_POWERON
  | AWAITING_INITIAL_INIT | AWAITING_ZOOM_RESPONSE | AWAITING_PAN_TILT_RESPONSE
  | AWAITING_STOP_PAN_TILT_RESPONSE | AWAITING_STOP_ZOOM_RESPONSE
  | AWAITING_PAN_SLEW_RESPONSE | AWAITING_TILT_SLEW_RESPONSE | AWAITING_POS_REQUEST
  | AWAITING_ZOOM_REQUEST | AWAITING_LED_CONTROL_RESPONSE | AWAITING_IRLEDS_RESPONSE
  | AWAITING_IRFILTER_RESPONSE | AWAITING_PRODUCTNAME_REQUEST
  | AWAITING_DIGITAL_ZOOM_RESPONSE | AWAITING_FOCUS_RESPONSE | STATE_DELAYED_SWITCH
  | STATE_ERROR

subsection \<open>The data members of \<open>ArVCC4\<close>\<close>

text \<open>
  In the order of the header. The functor \<open>myTaskCB\<close> is bound once to \<open>camTask\<close> and is
  left out; \<open>myPacket\<close> is the content of the packet buffer.
\<close>

record 'd ArVCC4 =
  myWasError :: bool
  myProductName :: string
  myRobot :: nat
  myConn :: nat
  newPacket :: nat
  myPacket :: "8 word list"
  myStateTime :: int
  myPacketTime :: int
  myIdleTime :: int
  myUsingAuxPort :: bool
  myStateDelayTime :: int
  myCommType :: CommState
  myResponseReceived :: bool
  myWaitingOnStop :: bool
  myWaitingOnPacket :: bool
  myState :: State
  myPreviousState :: State
  myNextState :: State
  myStateTimeout :: int
  myPacketTimeout :: int
  myPacketBuf :: "8 word list"
  myPacketBufLen :: nat
  myBytesLeft :: int
  myCameraType :: CameraType
  myRequestProductName :: bool
  myDesiredLEDControlMode :: int
  myIRLEDsEnabled :: bool
  myDesiredIRLEDsMode :: bool
  myIRFilterModeEnabled :: bool
  myDesiredIRFilterMode :: bool
  myAutoUpdate :: bool
  myAutoUpdateCycle :: int
  myPan :: 'd
  myTilt :: 'd
  myZoom :: int
  myDigitalZoom :: int
  myFocusMode :: int
  myPanResponse :: 'd
  myTiltResponse :: 'd
  myZoomResponse :: int
  myProductNameResponse :: "8 word list"
  myPanSent :: 'd
  myTiltSent :: 'd
  myZoomSent :: int
  myPanSlewSent :: 'd
  myTiltSlewSent :: 'd
  myPanSlew :: 'd
  myTiltSlew :: 'd
  myPanDesired :: 'd
  myTiltDesired :: 'd
  myZoomDesired :: int
  myDigitalZoomDesired :: int
  myFocusModeDesired :: int
  myPanSlewDesired :: 'd
  myTiltSlewDesired :: 'd
  myPowerState :: bool
  myCameraIsInitted :: bool
  myPowerStateDesired :: bool
  myInitRequested :: bool
  myHaltZoomRequested :: bool
  myHaltPanTiltRequested :: bool
  myCameraHasBeenInitted :: bool
  myRealPanTiltRequested :: bool
  myRealZoomRequested :: bool
  myError :: nat
  myFOVAtMaxZoom :: 'd
  myFOVAtMinZoom :: 'd
  myErrorCBList :: "nat list"

subsection \<open>The inline methods\<close>

definition power_VCC4 :: "bool \<Rightarrow> 'd ArVCC4 \<Rightarrow> bool \<times> 'd ArVCC4" where
  "power_VCC4 state s = (True, s\<lparr>myPowerStateDesired := state\<rparr>)"

definition getPower :: "'d ArVCC4 \<Rightarrow> bool" where
  "getPower s = myPowerState s"

definition init :: "'d ArVCC4 \<Rightarrow> bool \<times> 'd ArVCC4" where
  "init s = (True, s\<lparr>myInitRequested := True\<rparr>)"

definition isInitted :: "'d ArVCC4 \<Rightarrow> bool" where
  "isInitted s = myCameraIsInitted s"

text \<open>
  \<open>panTilt_i\<close> is declared in the header and defined elsewhere; the five methods that
  forward to it take it as their first argument.
\<close>

type_synonym 'd panTilt = "'d \<Rightarrow> 'd \<Rightarrow> 'd ArVCC4 \<Rightarrow> bool \<times> 'd ArVCC4"

definition pan_i :: "'d panTilt \<Rightarrow> 'd \<Rightarrow> 'd ArVCC4 \<Rightarrow> bool \<times> 'd ArVCC4" where
  "pan_i panTilt_i deg s = panTilt_i deg (myTiltDesired s) s"

definition panRel_i :: "('d::plus) panTilt \<Rightarrow> 'd \<Rightarrow> 'd ArVCC4 \<Rightarrow> bool \<times> 'd ArVCC4" where
  "panRel_i panTilt_i deg s = panTilt_i (myPanDesired s + deg) (myTiltDesired s) s"

definition tilt_i :: "'d panTilt \<Rightarrow> 'd \<Rightarrow> 'd ArVCC4 \<Rightarrow> bool \<times> 'd ArVCC4" where
  "tilt_i panTilt_i deg s = panTilt_i (myPanDesired s) deg s"

definition tiltRel_i :: "('d::plus) panTilt \<Rightarrow> 'd \<Rightarrow> 'd ArVCC4 \<Rightarrow> bool \<times> 'd ArVCC4" where
  "tiltRel_i panTilt_i deg s = panTilt_i (myPanDesired s) (myTiltDesired s + deg) s"

definition panTiltRel_i ::
  "('d::plus) panTilt \<Rightarrow> 'd \<Rightarrow> 'd \<Rightarrow> 'd ArVCC4 \<Rightarrow> bool \<times> 'd ArVCC4" where
  "panTiltRel_i panTilt_i pdeg tdeg s =
     panTilt_i (myPanDesired s + pdeg) (myTiltDesired s + tdeg) s"

definition getRealPanTilt :: "'d ArVCC4 \<Rightarrow> 'd ArVCC4" where
  "getRealPanTilt s = s\<lparr>myRealPanTiltRequested := True\<rparr>"

definition getRealZoomPos :: "'d ArVCC4 \<Rightarrow> 'd ArVCC4" where
  "getRealZoomPos s = s\<lparr>myRealZoomRequested := True\<rparr>"

definition haltPanTilt :: "'d ArVCC4 \<Rightarrow> bool \<times> 'd ArVCC4" where
  "haltPanTilt s = (True, s\<lparr>myHaltPanTiltRequested := True\<rparr>)"

definition haltZoom :: "'d ArVCC4 \<Rightarrow> bool \<times> 'd ArVCC4" where
  "haltZoom s = (True, s\<lparr>myHaltZoomRequested := True\<rparr>)"

definition panSlew :: "'d \<Rightarrow> 'd ArVCC4 \<Rightarrow> bool \<times> 'd ArVCC4" where
  "panSlew deg s = (True, s\<lparr>myPanSlewDesired := deg\<rparr>)"

definition tiltSlew :: "'d \<Rightarrow> 'd ArVCC4 \<Rightarrow> bool \<times> 'd ArVCC4" where
  "tiltSlew deg s = (True, s\<lparr>myTiltSlewDesired := deg\<rparr>)"

definition getPan_i :: "'d ArVCC4 \<Rightarrow> 'd" where
  "getPan_i s = myPanDesired s"

definition getTilt_i :: "'d ArVCC4 \<Rightarrow> 'd" where
  "getTilt_i s = myTiltDesired s"

definition getZoom :: "'d ArVCC4 \<Rightarrow> int" where
  "getZoom s = myZoomDesired s"

definition getDigitalZoom :: "('d::ring_1) ArVCC4 \<Rightarrow> 'd" where
  "getDigitalZoom s = of_int (myDigitalZoomDesired s)"

definition setAutoFocus :: "bool \<Rightarrow> 'd ArVCC4 \<Rightarrow> bool \<times> 'd ArVCC4" where
  "setAutoFocus af s =
     (True, if af then s\<lparr>myFocusModeDesired := 0\<rparr> else s\<lparr>myFocusModeDesired := 1\<rparr>)"

definition focusNear :: "'d ArVCC4 \<Rightarrow> bool \<times> 'd ArVCC4" where
  "focusNear s = (True, s\<lparr>myFocusModeDesired := 2\<rparr>)"

definition focusFar :: "'d ArVCC4 \<Rightarrow> bool \<times> 'd ArVCC4" where
  "focusFar s = (True, s\<lparr>myFocusModeDesired := 3\<rparr>)"

definition getPanSlew :: "'d ArVCC4 \<Rightarrow> 'd" where
  "getPanSlew s = myPanSlewDesired s"

definition getMaxPanSlew :: "('d::ring_1) ArVCC4 \<Rightarrow> 'd" where
  "getMaxPanSlew s = of_int (Param_val MAX_PAN_SLEW)"

definition getMinPanSlew :: "('d::ring_1) ArVCC4 \<Rightarrow> 'd" where
  "getMinPanSlew s = of_int (Param_val MIN_PAN_SLEW)"

definition getTiltSlew :: "'d ArVCC4 \<Rightarrow> 'd" where
  "getTiltSlew s = myTiltSlewDesired s"

definition getMaxTiltSlew :: "('d::ring_1) ArVCC4 \<Rightarrow> 'd" where
  "getMaxTiltSlew s = of_int (Param_val MAX_TILT_SLEW)"

definition getMinTiltSlew :: "('d::ring_1) ArVCC4 \<Rightarrow> 'd" where
  "getMinTiltSlew s = of_int (Param_val MIN_TILT_SLEW)"

definition getMinZoom :: "'d ArVCC4 \<Rightarrow> int" where
  "getMinZoom s = Param_val MIN_ZOOM"

definition getFOVAtMaxZoom :: "'d ArVCC4 \<Rightarrow> 'd" where
  "getFOVAtMaxZoom s = myFOVAtMaxZoom s"

definition getFOVAtMinZoom :: "'d ArVCC4 \<Rightarrow> 'd" where
  "getFOVAtMinZoom s = myFOVAtMinZoom s"


definition enableAutoUpdate :: "'d ArVCC4 \<Rightarrow> 'd ArVCC4" where
  "enableAutoUpdate s = s\<lparr>myAutoUpdate := True\<rparr>"

definition disableAutoUpdate :: "'d ArVCC4 \<Rightarrow> 'd ArVCC4" where
  "disableAutoUpdate s = s\<lparr>myAutoUpdate := False\<rparr>"

definition getAutoUpdate :: "'d ArVCC4 \<Rightarrow> bool" where
  "getAutoUpdate s = myAutoUpdate s"

definition setLEDControlMode :: "int \<Rightarrow> 'd ArVCC4 \<Rightarrow> 'd ArVCC4" where
  "setLEDControlMode controlMode s = s\<lparr>myDesiredLEDControlMode := controlMode\<rparr>"

definition enableIRLEDs :: "'d ArVCC4 \<Rightarrow> 'd ArVCC4" where
  "enableIRLEDs s = s\<lparr>myDesiredIRLEDsMode := True\<rparr>"

definition disableIRLEDs :: "'d ArVCC4 \<Rightarrow> 'd ArVCC4" where
  "disableIRLEDs s = s\<lparr>myDesiredIRLEDsMode := False\<rparr>"

definition getIRLEDsEnabled :: "'d ArVCC4 \<Rightarrow> bool" where
  "getIRLEDsEnabled s = myIRLEDsEnabled s"

definition enableIRFilterMode :: "'d ArVCC4 \<Rightarrow> 'd ArVCC4" where
  "enableIRFilterMode s = s\<lparr>myDesiredIRFilterMode := True\<rparr>"

definition disableIRFilterMode :: "'d ArVCC4 \<Rightarrow> 'd ArVCC4" where
  "disableIRFilterMode s = s\<lparr>myDesiredIRFilterMode := False\<rparr>"

definition getIRFilterModeEnabled :: "'d ArVCC4 \<Rightarrow> bool" where
  "getIRFilterModeEnabled s = myIRFilterModeEnabled s"

section \<open>The parts of the driver that the header only declares\<close>

text \<open>
  The bodies of the constructor, of the unit conversion and of \<open>camTask\<close> with the methods
  it calls are in \<open>ArVCC4.cpp\<close>. They are modelled here from the specification of the
  driver and from the comments of the header, on the record above with \<open>double\<close> read as
  \<open>real\<close> (exact arithmetic; the rounding of IEEE doubles is not modelled).
\<close>

type_synonym VCC4 = "real ArVCC4"

subsection \<open>Construction\<close>

text \<open>
  Modelled from the spec: the body of the constructor \<open>ArVCC4::ArVCC4\<close> is missing. The
  parameters are those of the declaration in the header. The communication mode is the one
  requested (\<open>commDirection\<close>; the header: a specific mode can be requested, or
  \<open>COMM_UNKNOWN\<close>), the FSM starts uninitialized with no command in flight
  (spec 4.4, step 1), and the camera is wanted on (the bootstrap sequence ends by powering it
  on). The members the spec does not speak of are zero, false or empty; \<open>inverted\<close> and
  \<open>disableLED\<close> have no member of the header to be stored in.
\<close>

definition ArVCC4_ctor ::
  "nat \<Rightarrow> bool \<Rightarrow> CommState \<Rightarrow> bool \<Rightarrow> bool \<Rightarrow> CameraType \<Rightarrow> VCC4" where
  "ArVCC4_ctor robot inverted commDirection autoUpdate disableLED cameraType =
     \<lparr> myWasError = False, myProductName = [], myRobot = robot, myConn = 0, newPacket = 0,
       myPacket = [], myStateTime = 0, myPacketTime = 0, myIdleTime = 0,
       myUsingAuxPort = False, myStateDelayTime = 0, myCommType = commDirection,
       myResponseReceived = False, myWaitingOnStop = False, myWaitingOnPacket = False,
       myState = UNINITIALIZED, myPreviousState = UNINITIALIZED,
       myNextState = UNINITIALIZED, myStateTimeout = BIDIRECTIONAL_TIMEOUT,
       myPacketTimeout = 0, myPacketBuf = [], myPacketBufLen = 0, myBytesLeft = 0,
       myCameraType = cameraType, myRequestProductName = False,
       myDesiredLEDControlMode = 0, myIRLEDsEnabled = False, myDesiredIRLEDsMode = False,
       myIRFilterModeEnabled = False, myDesiredIRFilterMode = False,
       myAutoUpdate = autoUpdate, myAutoUpdateCycle = 0, myPan = 0, myTilt = 0, myZoom = 0,
       myDigitalZoom = 0, myFocusMode = 0, myPanResponse = 0, myTiltResponse = 0,
       myZoomResponse = 0, myProductNameResponse = [], myPanSent = 0, myTiltSent = 0,
       myZoomSent = 0, myPanSlewSent = 0, myTiltSlewSent = 0, myPanSlew = 0,
       myTiltSlew = 0, myPanDesired = 0, myTiltDesired = 0, myZoomDesired = 0,
       myDigitalZoomDesired = 0, myFocusModeDesired = 0, myPanSlewDesired = 0,
       myTiltSlewDesired = 0, myPowerState = False, myCameraIsInitted = False,
       myPowerStateDesired = True, myInitRequested = False, myHaltZoomRequested = False,
       myHaltPanTiltRequested = False, myCameraHasBeenInitted = False,
       myRealPanTiltRequested = False, myRealZoomRequested = False,
       myError = unat (Error_val CAM_ERROR_NONE), myFOVAtMaxZoom = 0, myFOVAtMinZoom = 0,
       myErrorCBList = [] \<rparr>"

text \<open>The constructor with the default arguments of its declaration.\<close>

definition ArVCC4_default :: "nat \<Rightarrow> VCC4" where
  "ArVCC4_default robot = ArVCC4_ctor robot False COMM_UNKNOWN True False CAMERA_VCC4"

subsection \<open>Unit conversion\<close>

text \<open>
  Modelled from the spec: the conversion is done where the pan/tilt packet is built, which is
  missing. The header (section Unit Conversions): the camera works on a number of units
  equal to degrees / 0.1125, and the conversion is always rounded closer to zero; the spec
  (4.1): a fixed scale of 0.1125 degrees per unit, rounded toward zero. \<open>truncate_toward_zero\<close>
  is the conversion of a C++ \<open>double\<close> to \<open>int\<close>.
\<close>

definition DEGREES_PER_UNIT :: real where
  "DEGREES_PER_UNIT = 1125 / 10000"

definition truncate_toward_zero :: "real \<Rightarrow> int" where
  "truncate_toward_zero x = (if x < 0 then \<lceil>x\<rceil> else \<lfloor>x\<rfloor>)"

definition degToUnits :: "real \<Rightarrow> int" where
  "degToUnits deg = truncate_toward_zero (deg / DEGREES_PER_UNIT)"

definition unitsToDeg :: "int \<Rightarrow> real" where
  "unitsToDeg units = of_int units * DEGREES_PER_UNIT"

subsection \<open>The link, as the state machine sees it\<close>

text \<open>
  Modelled from the spec: the packet code and the link adapter are missing. The state
  machine of the spec hands a command to \<open>send\<close> and asks \<open>tryReceive\<close> for an optional
  response (4.3). A transmitted command is kept here as the command and the values it
  carries, one constructor for each sending method that the header declares; a received
  response is its first payload byte (the status) and the data decoded for the command
  that produced it. The byte layout of the frames is not part of this model.
\<close>

datatype Tx =
    TxInit | TxControlMode | TxDefaultRange | TxPower bool | TxPanTilt real real
  | TxZoom int | TxDigitalZoom int | TxPanSlew real | TxTiltSlew real | TxHaltPanTilt
  | TxHaltZoom | TxFocus int | TxIRFilterControl bool | TxIRLEDControl bool
  | TxRealPanTiltRequest | TxRealZoomRequest

datatype Payload = NoData | PanTiltData real real | ZoomData int

datatype Answer = Answer (status: "8 word") (payload: Payload)

text \<open>
  Modelled from the spec: what one cycle did on the link, as an observer of the link sees
  it: nothing, a command transmitted, or the outcome of the command in flight determined
  (Glossary, In-flight command).
\<close>

datatype Action = NoAction | Transmit Tx | Resolve

text \<open>
  Modelled from the spec: the decoding of the status byte is missing. The first payload byte
  is read against the known error codes of \<open>enum Error\<close>; any other byte is the unknown
  error (spec 3, Response Frame).
\<close>

definition errorOfByte :: "8 word \<Rightarrow> Error" where
  "errorOfByte b =
     (if b = Error_val CAM_ERROR_NONE then CAM_ERROR_NONE
      else if b = Error_val CAM_ERROR_BUSY then CAM_ERROR_BUSY
      else if b = Error_val CAM_ERROR_PARAM then CAM_ERROR_PARAM
      else if b = Error_val CAM_ERROR_MODE then CAM_ERROR_MODE
      else CAM_ERROR_UNKNOWN)"

subsection \<open>The state machine\<close>

text \<open>
  Modelled from the spec: \<open>switchState\<close>, \<open>throwError\<close> and the sending methods are declared
  in the header and their bodies are missing. \<open>switchState\<close> enters a state and restarts the
  state timer (the delayed switch of its second parameter is not modelled); \<open>throwError\<close>
  runs the error callbacks, after which \<open>wasError\<close> is true; a sending method records what it
  sends in the Sent members, which are written at the moment of transmission only (spec 3,
  Sent State; the header: the positions that were last sent to the camera).
\<close>

definition switchState :: "State \<Rightarrow> int \<Rightarrow> VCC4 \<Rightarrow> VCC4" where
  "switchState state now s =
     s\<lparr>myPreviousState := myState s, myState := state, myStateTime := now\<rparr>"

definition throwError :: "VCC4 \<Rightarrow> VCC4" where
  "throwError s = s\<lparr>myWasError := True\<rparr>"

definition sendPanTilt :: "VCC4 \<Rightarrow> VCC4 \<times> Tx" where
  "sendPanTilt s =
     (s\<lparr>myPanSent := myPanDesired s, myTiltSent := myTiltDesired s\<rparr>,
      TxPanTilt (myPanDesired s) (myTiltDesired s))"

definition sendZoom :: "VCC4 \<Rightarrow> VCC4 \<times> Tx" where
  "sendZoom s = (s\<lparr>myZoomSent := myZoomDesired s\<rparr>, TxZoom (myZoomDesired s))"

definition sendPanSlew :: "VCC4 \<Rightarrow> VCC4 \<times> Tx" where
  "sendPanSlew s = (s\<lparr>myPanSlewSent := myPanSlewDesired s\<rparr>, TxPanSlew (myPanSlewDesired s))"

definition sendTiltSlew :: "VCC4 \<Rightarrow> VCC4 \<times> Tx" where
  "sendTiltSlew s =
     (s\<lparr>myTiltSlewSent := myTiltSlewDesired s\<rparr>, TxTiltSlew (myTiltSlewDesired s))"

text \<open>
  Modelled from the spec: a command is handed to the link, the in-flight flag
  \<open>myWaitingOnPacket\<close> is set and the state that waits for its outcome is entered (spec 5:
  the in-flight flag enforces that there is one outstanding exchange at a time).
\<close>

definition transmit :: "Tx \<Rightarrow> State \<Rightarrow> int \<Rightarrow> VCC4 \<Rightarrow> VCC4 \<times> Action" where
  "transmit tx state now s =
     (switchState state now (s\<lparr>myWaitingOnPacket := True\<rparr>), Transmit tx)"

text \<open>
  Modelled from the spec: the divergence tests of the steady state are missing. Desired is
  compared with Sent for each axis, and a pan, tilt, zoom or slew command is suppressed if
  the divergence between Desired and Sent is below \<open>TOLERANCE\<close> (spec 4.4, steps 4 and 7;
  section 8: a desired pan within 0.1 of Sent produces no command). Sent is the member that
  the sending method writes: \<open>myPanSent\<close>, \<open>myTiltSent\<close>, \<open>myZoomSent\<close>, \<open>myPanSlewSent\<close>,
  \<open>myTiltSlewSent\<close>. Pan and tilt travel in one command, which is sent when either
  diverges. (The header's comment on \<open>TOLERANCE\<close> speaks of the current and the desired
  position; the current position takes the Sent value when a command succeeds, spec 4.4,
  step 5.)
\<close>

definition panTiltDivergent :: "VCC4 \<Rightarrow> bool" where
  "panTiltDivergent s =
     (TOLERANCE \<le> \<bar>myPanDesired s - myPanSent s\<bar>
      \<or> TOLERANCE \<le> \<bar>myTiltDesired s - myTiltSent s\<bar>)"

definition zoomDivergent :: "VCC4 \<Rightarrow> bool" where
  "zoomDivergent s = (TOLERANCE \<le> \<bar>of_int (myZoomDesired s - myZoomSent s)\<bar>)"

definition panSlewDivergent :: "VCC4 \<Rightarrow> bool" where
  "panSlewDivergent s = (TOLERANCE \<le> \<bar>myPanSlewDesired s - myPanSlewSent s\<bar>)"

definition tiltSlewDivergent :: "VCC4 \<Rightarrow> bool" where
  "tiltSlewDivergent s = (TOLERANCE \<le> \<bar>myTiltSlewDesired s - myTiltSlewSent s\<bar>)"

text \<open>
  Modelled from the spec: the steady state of \<open>camTask\<close> (spec 4.4, steps 4 and 6). With
  no command in flight, the first divergent axis in the order of priority is served: halt
  requests, power, pan/tilt, zoom (optical, then digital), slew rates, the auxiliary controls
  (IR filter, IR LEDs, focus), then the requests for the real position, on demand or by the
  auto-update rotation every \<open>AUTO_UPDATE_TIME\<close> in bidirectional mode. Power, digital
  zoom, focus and the IR controls have no Sent member in the header: their desired value is
  compared with the current one (spec 2: Desired against Sent/Actual). The LED control
  mode has a desired member only, so its divergence cannot be stated and it is not served.
\<close>

definition dispatch :: "int \<Rightarrow> VCC4 \<Rightarrow> VCC4 \<times> Action" where
  "dispatch now s =
     (if myHaltPanTiltRequested s then
        transmit TxHaltPanTilt AWAITING_STOP_PAN_TILT_RESPONSE now s
      else if myHaltZoomRequested s then
        transmit TxHaltZoom AWAITING_STOP_ZOOM_RESPONSE now s
      else if \<not> myPowerStateDesired s then
        transmit (TxPower False) POWERING_OFF now s
      else if panTiltDivergent s then
        transmit (snd (sendPanTilt s)) AWAITING_PAN_TILT_RESPONSE now (fst (sendPanTilt s))
      else if zoomDivergent s then
        transmit (snd (sendZoom s)) AWAITING_ZOOM_RESPONSE now (fst (sendZoom s))
      else if myDigitalZoomDesired s \<noteq> myDigitalZoom s then
        transmit (TxDigitalZoom (myDigitalZoomDesired s)) AWAITING_DIGITAL_ZOOM_RESPONSE now s
      else if panSlewDivergent s then
        transmit (snd (sendPanSlew s)) AWAITING_PAN_SLEW_RESPONSE now (fst (sendPanSlew s))
      else if tiltSlewDivergent s then
        transmit (snd (sendTiltSlew s)) AWAITING_TILT_SLEW_RESPONSE now (fst (sendTiltSlew s))
      else if myDesiredIRFilterMode s \<noteq> myIRFilterModeEnabled s then
        transmit (TxIRFilterControl (myDesiredIRFilterMode s)) AWAITING_IRFILTER_RESPONSE now s
      else if myDesiredIRLEDsMode s \<noteq> myIRLEDsEnabled s then
        transmit (TxIRLEDControl (myDesiredIRLEDsMode s)) AWAITING_IRLEDS_RESPONSE now s
      else if myFocusModeDesired s \<noteq> myFocusMode s then
        transmit (TxFocus (myFocusModeDesired s)) AWAITING_FOCUS_RESPONSE now s
      else if myRealPanTiltRequested s then
        transmit TxRealPanTiltRequest AWAITING_POS_REQUEST now s
      else if myRealZoomRequested s then
        transmit TxRealZoomRequest AWAITING_ZOOM_REQUEST now s
      else if myAutoUpdate s \<and> myCommType s = COMM_BIDIRECTIONAL
              \<and> AUTO_UPDATE_TIME \<le> now - myIdleTime s then
        (if myAutoUpdateCycle s = 0 then
           transmit TxRealPanTiltRequest AWAITING_POS_REQUEST now
             (s\<lparr>myAutoUpdateCycle := 1, myIdleTime := now\<rparr>)
         else
           transmit TxRealZoomRequest AWAITING_ZOOM_REQUEST now
             (s\<lparr>myAutoUpdateCycle := 0, myIdleTime := now\<rparr>))
      else (s, NoAction))"

text \<open>
  Modelled from the spec: the Error state (spec 4.4, step 3, and 7). The Error Notification
  is invoked; the classification is \<open>myError\<close>, the error state of the last response. After a
  busy response the same step is tried again: a bootstrap step sends its command again, a
  steady-state command is left to the next divergence check. After a mode error the control
  mode is set again. After a parameter error, or any other error, the driver goes back to
  idle and the step sends nothing: the rejected pan, tilt, zoom or slew command is not
  retried, because its Sent value is the desired value until the caller changes the
  Desired State.
\<close>

definition idleState :: "VCC4 \<Rightarrow> State" where
  "idleState s = (if myPowerState s then POWERED_ON else POWERED_OFF)"

fun retryState :: "State \<Rightarrow> VCC4 \<Rightarrow> State" where
  "retryState AWAITING_INITIAL_INIT s = STATE_UNKNOWN"
| "retryState INITIALIZING s = INITIALIZING"
| "retryState SETTING_CONTROL_MODE s = SETTING_CONTROL_MODE"
| "retryState SETTING_INIT_TILT_RATE s = SETTING_INIT_TILT_RATE"
| "retryState SETTING_INIT_PAN_RATE s = SETTING_INIT_PAN_RATE"
| "retryState SETTING_INIT_RANGE s = SETTING_INIT_RANGE"
| "retryState POWERING_ON s = POWERING_ON"
| "retryState POWERING_OFF s = POWERING_OFF"
| "retryState state s = idleState s"

definition errorStep :: "int \<Rightarrow> VCC4 \<Rightarrow> VCC4 \<times> Action" where
  "errorStep now s =
     (if myError s = unat (Error_val CAM_ERROR_BUSY) then
        switchState (retryState (myPreviousState s) s) now (throwError s)
      else if myError s = unat (Error_val CAM_ERROR_MODE) then
        switchState SETTING_CONTROL_MODE now (throwError s)
      else switchState (idleState s) now (throwError s),
      NoAction)"

text \<open>
  Modelled from the spec: what \<open>camTask\<close> does with no command in flight (spec 4.4, steps 1
  to 4). Uninitialized: initialization is requested and the mode detection is entered.
  Detecting the mode (\<open>STATE_UNKNOWN\<close>): an init command is sent. Each step of the bootstrap
  sequence sends its one command. Powered off, the only command is to power on. The states
  of the header that the spec does not speak of do nothing.
\<close>

definition actStep :: "int \<Rightarrow> VCC4 \<Rightarrow> VCC4 \<times> Action" where
  "actStep now s =
     (case myState s of
        UNINITIALIZED \<Rightarrow> (switchState STATE_UNKNOWN now (s\<lparr>myInitRequested := True\<rparr>), NoAction)
      | STATE_UNKNOWN \<Rightarrow> transmit TxInit AWAITING_INITIAL_INIT now (s\<lparr>myInitRequested := False\<rparr>)
      | INITIALIZING \<Rightarrow> transmit TxInit INITIALIZING now s
      | SETTING_CONTROL_MODE \<Rightarrow> transmit TxControlMode SETTING_CONTROL_MODE now s
      | SETTING_INIT_TILT_RATE \<Rightarrow>
          transmit (snd (sendTiltSlew s)) SETTING_INIT_TILT_RATE now (fst (sendTiltSlew s))
      | SETTING_INIT_PAN_RATE \<Rightarrow>
          transmit (snd (sendPanSlew s)) SETTING_INIT_PAN_RATE now (fst (sendPanSlew s))
      | SETTING_INIT_RANGE \<Rightarrow> transmit TxDefaultRange SETTING_INIT_RANGE now s
      | POWERING_ON \<Rightarrow> transmit (TxPower True) POWERING_ON now s
      | POWERING_OFF \<Rightarrow> transmit (TxPower False) POWERING_OFF now s
      | POWERED_OFF \<Rightarrow>
          (if myPowerStateDesired s then transmit (TxPower True) POWERING_ON now s
           else (s, NoAction))
      | POWERED_ON \<Rightarrow> dispatch now s
      | STATE_ERROR \<Rightarrow> errorStep now s
      | _ \<Rightarrow> (s, NoAction))"

text \<open>
  Modelled from the spec: the detection of the communication mode (spec 3 and 4.4, step 2).
  While the mode is unknown, a response makes it bidirectional, and the detection window
  of \<open>BIDIRECTIONAL_TIMEOUT\<close> passing without a response makes it unidirectional. A mode
  that is not unknown is left as it is.
\<close>

definition detectMode :: "int \<Rightarrow> Answer option \<Rightarrow> VCC4 \<Rightarrow> CommState" where
  "detectMode now resp s =
     (if myCommType s = COMM_UNKNOWN then
        (case resp of
           Some a \<Rightarrow> COMM_BIDIRECTIONAL
         | None \<Rightarrow>
             if BIDIRECTIONAL_TIMEOUT \<le> now - myStateTime s then COMM_UNIDIRECTIONAL
             else COMM_UNKNOWN)
      else myCommType s)"

text \<open>
  Modelled from the spec: the outcome of the command in flight (spec 4.4, steps 2 and 5).
  Unidirectional: success is assumed once \<open>UNIDIRECTIONAL_TIMEOUT\<close> has passed, and
  responses are not looked at. Bidirectional: a response with status no-error is a success,
  with any other status a failure of that class, and \<open>BIDIRECTIONAL_TIMEOUT\<close> passing without
  a response is a failure (of the unknown class: there is no status byte to classify).
\<close>

datatype Outcome = Pending | Succeeded | Failed Error

definition outcome :: "int \<Rightarrow> Answer option \<Rightarrow> VCC4 \<Rightarrow> Outcome" where
  "outcome now resp s =
     (case myCommType s of
        COMM_UNIDIRECTIONAL \<Rightarrow>
          if UNIDIRECTIONAL_TIMEOUT \<le> now - myStateTime s then Succeeded else Pending
      | COMM_BIDIRECTIONAL \<Rightarrow>
          (case resp of
             Some a \<Rightarrow>
               if errorOfByte (status a) = CAM_ERROR_NONE then Succeeded
               else Failed (errorOfByte (status a))
           | None \<Rightarrow>
               if BIDIRECTIONAL_TIMEOUT \<le> now - myStateTime s then Failed CAM_ERROR_UNKNOWN
               else Pending)
      | COMM_UNKNOWN \<Rightarrow> Pending)"

text \<open>
  Modelled from the spec: what a success changes (spec 4.4, step 5: update Sent to Actual as
  appropriate). The current value of the axis takes the value that was sent (the desired
  value for the axes that have no Sent member); a halt or real-position request is done; the
  camera-reported members take the data of the response, when there is one (spec 3,
  Actual State).
\<close>

fun confirm :: "State \<Rightarrow> Answer option \<Rightarrow> VCC4 \<Rightarrow> VCC4" where
  "confirm AWAITING_PAN_TILT_RESPONSE resp s = s\<lparr>myPan := myPanSent s, myTilt := myTiltSent s\<rparr>"
| "confirm AWAITING_ZOOM_RESPONSE resp s = s\<lparr>myZoom := myZoomSent s\<rparr>"
| "confirm AWAITING_DIGITAL_ZOOM_RESPONSE resp s = s\<lparr>myDigitalZoom := myDigitalZoomDesired s\<rparr>"
| "confirm AWAITING_PAN_SLEW_RESPONSE resp s = s\<lparr>myPanSlew := myPanSlewSent s\<rparr>"
| "confirm SETTING_INIT_PAN_RATE resp s = s\<lparr>myPanSlew := myPanSlewSent s\<rparr>"
| "confirm AWAITING_TILT_SLEW_RESPONSE resp s = s\<lparr>myTiltSlew := myTiltSlewSent s\<rparr>"
| "confirm SETTING_INIT_TILT_RATE resp s = s\<lparr>myTiltSlew := myTiltSlewSent s\<rparr>"
| "confirm AWAITING_IRFILTER_RESPONSE resp s =
     s\<lparr>myIRFilterModeEnabled := myDesiredIRFilterMode s\<rparr>"
| "confirm AWAITING_IRLEDS_RESPONSE resp s = s\<lparr>myIRLEDsEnabled := myDesiredIRLEDsMode s\<rparr>"
| "confirm AWAITING_FOCUS_RESPONSE resp s = s\<lparr>myFocusMode := myFocusModeDesired s\<rparr>"
| "confirm AWAITING_STOP_PAN_TILT_RESPONSE resp s = s\<lparr>myHaltPanTiltRequested := False\<rparr>"
| "confirm AWAITING_STOP_ZOOM_RESPONSE resp s = s\<lparr>myHaltZoomRequested := False\<rparr>"
| "confirm POWERING_ON resp s = s\<lparr>myPowerState := True\<rparr>"
| "confirm POWERING_OFF resp s = s\<lparr>myPowerState := False\<rparr>"
| "confirm AWAITING_POS_REQUEST resp s =
     (case resp of
        Some (Answer b (PanTiltData p t)) \<Rightarrow>
          s\<lparr>myRealPanTiltRequested := False, myPanResponse := p, myTiltResponse := t\<rparr>
      | _ \<Rightarrow> s\<lparr>myRealPanTiltRequested := False\<rparr>)"
| "confirm AWAITING_ZOOM_REQUEST resp s =
     (case resp of
        Some (Answer b (ZoomData z)) \<Rightarrow> s\<lparr>myRealZoomRequested := False, myZoomResponse := z\<rparr>
      | _ \<Rightarrow> s\<lparr>myRealZoomRequested := False\<rparr>)"
| "confirm state resp s = s"

text \<open>
  Modelled from the spec: the state entered after a success (spec 4.4, steps 2, 3 and 5):
  the bootstrap sequence is linear, from the mode detection to powering on; every other
  command returns to idle.
\<close>

fun successor :: "State \<Rightarrow> State" where
  "successor AWAITING_INITIAL_INIT = INITIALIZING"
| "successor INITIALIZING = SETTING_CONTROL_MODE"
| "successor SETTING_CONTROL_MODE = SETTING_INIT_TILT_RATE"
| "successor SETTING_INIT_TILT_RATE = SETTING_INIT_PAN_RATE"
| "successor SETTING_INIT_PAN_RATE = SETTING_INIT_RANGE"
| "successor SETTING_INIT_RANGE = POWERING_ON"
| "successor POWERING_ON = POWERED_ON"
| "successor POWERING_OFF = POWERED_OFF"
| "successor state = POWERED_ON"

text \<open>
  Modelled from the spec: what \<open>camTask\<close> does with a command in flight (spec 4.4, steps 2, 3
  and 5). The mode is detected first. A pending outcome leaves everything as it is. A
  success clears the in-flight flag, updates the current values and enters the next state.
  A failure clears the in-flight flag, records the class of the error and enters the Error
  state, without updating the current values.
\<close>

definition awaitStep :: "int \<Rightarrow> Answer option \<Rightarrow> VCC4 \<Rightarrow> VCC4 \<times> Action" where
  "awaitStep now resp s =
     (let s1 = s\<lparr>myCommType := detectMode now resp s\<rparr>;
          seen = (if myCommType s1 = COMM_UNIDIRECTIONAL then None else resp)
      in case outcome now seen s1 of
           Pending \<Rightarrow> (s1, NoAction)
         | Succeeded \<Rightarrow>
             (switchState (successor (myState s1)) now
                (confirm (myState s1) seen
                   (s1\<lparr>myWaitingOnPacket := False,
                       myError := unat (Error_val CAM_ERROR_NONE)\<rparr>)),
              Resolve)
         | Failed e \<Rightarrow>
             (switchState STATE_ERROR now
                (s1\<lparr>myWaitingOnPacket := False, myError := unat (Error_val e)\<rparr>),
              Resolve))"

text \<open>
  Modelled from the spec: \<open>camTask\<close>, entered once in each cycle of the host with the time
  \<open>now\<close> (milliseconds) and what \<open>tryReceive\<close> returned. The error flag is that of the
  current cycle. If a response or a timeout is pending no new command is sent in this cycle
  (spec 4.4, step 4).
\<close>

definition camTask :: "int \<Rightarrow> Answer option \<Rightarrow> VCC4 \<Rightarrow> VCC4 \<times> Action" where
  "camTask now resp s =
     (if myWaitingOnPacket s then awaitStep now resp (s\<lparr>myWasError := False\<rparr>)
      else actStep now (s\<lparr>myWasError := False\<rparr>))"

subsection \<open>Runs of the driver\<close>

text \<open>
  Modelled from the spec: the host that calls \<open>camTask\<close> once per cycle and the caller that
  changes the Desired State between two cycles are outside the driver (spec 5 and 6). The
  changes are the inline setters of the header; for pan, tilt and the zooms, whose setters
  the header only declares, the change writes the desired member (spec 3: each is settable
  by the caller at any time).
\<close>

datatype Change =
    SetPan real | SetTilt real | SetZoom int | SetDigitalZoom int | SetPanSlew real
  | SetTiltSlew real | SetPower bool | SetAutoFocus bool | FocusNear | FocusFar
  | HaltPanTilt | HaltZoom | RequestInit | RequestRealPanTilt | RequestRealZoomPos
  | AutoUpdate bool | LEDControlMode int | IRLEDs bool | IRFilterMode bool

fun change :: "Change \<Rightarrow> VCC4 \<Rightarrow> VCC4" where
  "change (SetPan deg) s = s\<lparr>myPanDesired := deg\<rparr>"
| "change (SetTilt deg) s = s\<lparr>myTiltDesired := deg\<rparr>"
| "change (SetZoom z) s = s\<lparr>myZoomDesired := z\<rparr>"
| "change (SetDigitalZoom z) s = s\<lparr>myDigitalZoomDesired := z\<rparr>"
| "change (SetPanSlew deg) s = snd (panSlew deg s)"
| "change (SetTiltSlew deg) s = snd (tiltSlew deg s)"
| "change (SetPower state) s = snd (power_VCC4 state s)"
| "change (SetAutoFocus af) s = snd (setAutoFocus af s)"
| "change FocusNear s = snd (focusNear s)"
| "change FocusFar s = snd (focusFar s)"
| "change HaltPanTilt s = snd (haltPanTilt s)"
| "change HaltZoom s = snd (haltZoom s)"
| "change RequestInit s = snd (init s)"
| "change RequestRealPanTilt s = getRealPanTilt s"
| "change RequestRealZoomPos s = getRealZoomPos s"
| "change (AutoUpdate on) s = (if on then enableAutoUpdate s else disableAutoUpdate s)"
| "change (LEDControlMode m) s = setLEDControlMode m s"
| "change (IRLEDs on) s = (if on then enableIRLEDs s else disableIRLEDs s)"
| "change (IRFilterMode on) s = (if on then enableIRFilterMode s else disableIRFilterMode s)"

datatype Event = Cycle int "Answer option" | Caller Change

fun step :: "Event \<Rightarrow> VCC4 \<Rightarrow> VCC4" where
  "step (Cycle now resp) s = fst (camTask now resp s)"
| "step (Caller c) s = change c s"

text \<open>
  Modelled from the spec: a run is a sequence of cycles and caller requests. \<open>final\<close> is the
  object after the run, \<open>actions\<close> what the cycles of the run did on the link, in order.
\<close>

fun final :: "Event list \<Rightarrow> VCC4 \<Rightarrow> VCC4" where
  "final [] s = s"
| "final (e # es) s = final es (step e s)"

fun actions :: "Event list \<Rightarrow> VCC4 \<Rightarrow> Action list" where
  "actions [] s = []"
| "actions (Cycle now resp # es) s =
     snd (camTask now resp s) # actions es (step (Cycle now resp) s)"
| "actions (Caller c # es) s = actions es (step (Caller c) s)"



text \<open>
  Modelled from the spec: a run in which the caller requests nothing, given by the time and
  the response of each of its cycles.
\<close>

definition cycles :: "(int \<times> Answer option) list \<Rightarrow> Event list" where
  "cycles cs = map (\<lambda>(now, resp). Cycle now resp) cs"

subsection \<open>Scenarios\<close>



section \<open>Properties of the inline methods\<close>

text \<open>
  Claim C5: the axis limits are pan -98..98, tilt -30..88, pan slew 1..90, tilt slew 1..69
  and zoom from 0 upwards, and for every instance \<open>getMaxPanSlew\<close>, \<open>getMinPanSlew\<close>,
  \<open>getMaxTiltSlew\<close>, \<open>getMinTiltSlew\<close> and \<open>getMinZoom\<close> return 90, 1, 69, 1 and 0.
  (The upper zoom limit is what \<open>getMaxZoom\<close> returns; the header only declares it, next to
  the optical maximum \<open>MAX_ZOOM_OPTIC\<close>.)
\<close>

theorem axis_limits_and_slew_queries:
  fixes s :: "('d::ring_1) ArVCC4"
  shows "Param_val MIN_PAN = - 98 \<and> Param_val MAX_PAN = 98
       \<and> Param_val MIN_TILT = - 30 \<and> Param_val MAX_TILT = 88
       \<and> Param_val MIN_PAN_SLEW = 1 \<and> Param_val MAX_PAN_SLEW = 90
       \<and> Param_val MIN_TILT_SLEW = 1 \<and> Param_val MAX_TILT_SLEW = 69
       \<and> Param_val MIN_ZOOM = 0 \<and> Param_val MIN_ZOOM \<le> Param_val MAX_ZOOM_OPTIC
       \<and> getMaxPanSlew s = 90 \<and> getMinPanSlew s = 1
       \<and> getMaxTiltSlew s = 69 \<and> getMinTiltSlew s = 1
       \<and> getMinZoom s = 0"
  by (simp add: getMaxPanSlew_def getMinPanSlew_def getMaxTiltSlew_def getMinTiltSlew_def
      getMinZoom_def)

text \<open>
  Claim C8: for every \<open>deg\<close>, \<open>panSlew deg\<close> and \<open>tiltSlew deg\<close> return true and store \<open>deg\<close>
  as it is in the desired-slew member, also outside the slew bounds, and change no other
  member (putting the old value back gives the old object); \<open>haltPanTilt\<close> and \<open>haltZoom\<close>
  return true and only set their request flag.
\<close>

theorem slew_and_halt_requests:
  fixes s :: "'d ArVCC4"
  shows "fst (panSlew deg s) = True \<and> getPanSlew (snd (panSlew deg s)) = deg
       \<and> (snd (panSlew deg s))\<lparr>myPanSlewDesired := myPanSlewDesired s\<rparr> = s
       \<and> fst (tiltSlew deg s) = True \<and> getTiltSlew (snd (tiltSlew deg s)) = deg
       \<and> (snd (tiltSlew deg s))\<lparr>myTiltSlewDesired := myTiltSlewDesired s\<rparr> = s
       \<and> haltPanTilt s = (True, s\<lparr>myHaltPanTiltRequested := True\<rparr>)
       \<and> (snd (haltPanTilt s))\<lparr>myHaltPanTiltRequested := myHaltPanTiltRequested s\<rparr> = s
       \<and> haltZoom s = (True, s\<lparr>myHaltZoomRequested := True\<rparr>)
       \<and> (snd (haltZoom s))\<lparr>myHaltZoomRequested := myHaltZoomRequested s\<rparr> = s"
  by (simp add: panSlew_def tiltSlew_def haltPanTilt_def haltZoom_def getPanSlew_def
      getTiltSlew_def)

text \<open>
  Claim C9: \<open>power(state)\<close> (here \<open>power_VCC4\<close>) returns true and writes only the desired
  power state. \<open>getPower\<close> returns the confirmed power state \<open>myPowerState\<close>, whatever it is,
  and not the desired one, which it does not read. So its value is the same before and after
  the call: after \<open>power(true)\<close> on a camera that is off it is still false, and after
  \<open>power(false)\<close> on a camera that is on it is still true.
\<close>

theorem power_writes_desired_only:
  fixes s :: "'d ArVCC4"
  shows "fst (power_VCC4 state s) = True
       \<and> myPowerStateDesired (snd (power_VCC4 state s)) = state
       \<and> (snd (power_VCC4 state s))\<lparr>myPowerStateDesired := myPowerStateDesired s\<rparr> = s
       \<and> getPower (snd (power_VCC4 state s)) = getPower s
       \<and> getPower (snd (power_VCC4 True (s\<lparr>myPowerState := False\<rparr>))) = False
       \<and> getPower s = myPowerState s
       \<and> getPower (s\<lparr>myPowerState := b\<rparr>) = b
       \<and> getPower (s\<lparr>myPowerStateDesired := d\<rparr>) = getPower s
       \<and> getPower (snd (power_VCC4 state (s\<lparr>myPowerState := b\<rparr>))) = b
       \<and> getPower (snd (power_VCC4 False (s\<lparr>myPowerState := True\<rparr>))) = True"
  by (simp add: power_VCC4_def getPower_def)

text \<open>
  Claim C10: relative motion is computed from the desired position, not from the position
  the camera reported: \<open>panRel_i(deg)\<close> is \<open>panTilt_i(myPanDesired + deg, myTiltDesired)\<close>,
  \<open>tiltRel_i(deg)\<close> is \<open>panTilt_i(myPanDesired, myTiltDesired + deg)\<close>, and \<open>pan_i(deg)\<close>
  passes the desired tilt as it is. This holds for every \<open>panTilt_i\<close> (its body is not in the
  header) and whatever the current and camera-reported members hold. So \<open>pan_i\<close> keeps the
  desired tilt, for every \<open>panTilt_i\<close> that stores the tilt it is given when the tilt is in a
  set \<open>A\<close> of accepted tilts that the desired tilt is in.
\<close>

theorem relative_motion_from_desired:
  fixes panTilt_i :: "('d::plus) panTilt" and s :: "'d ArVCC4"
  shows "panRel_i panTilt_i deg s = panTilt_i (myPanDesired s + deg) (myTiltDesired s) s
       \<and> tiltRel_i panTilt_i deg s = panTilt_i (myPanDesired s) (myTiltDesired s + deg) s
       \<and> panRel_i panTilt_i deg s = pan_i panTilt_i (getPan_i s + deg) s
       \<and> tiltRel_i panTilt_i deg s = tilt_i panTilt_i (getTilt_i s + deg) s
       \<and> pan_i panTilt_i deg s = panTilt_i deg (myTiltDesired s) s
       \<and> panRel_i panTilt_i deg (s\<lparr>myPan := a, myTilt := b, myPanResponse := c, myTiltResponse := d\<rparr>)
           = panTilt_i (myPanDesired s + deg) (myTiltDesired s)
               (s\<lparr>myPan := a, myTilt := b, myPanResponse := c, myTiltResponse := d\<rparr>)
       \<and> (myTiltDesired s \<in> A \<and> (\<forall>t\<in>A. \<forall>p s'. myTiltDesired (snd (panTilt_i p t s')) = t)
            \<longrightarrow> myTiltDesired (snd (pan_i panTilt_i deg s)) = myTiltDesired s)"
  by (simp add: panRel_i_def tiltRel_i_def pan_i_def tilt_i_def getPan_i_def getTilt_i_def)

theorem relative_motion_from_desired_witness:
  "myTiltDesired (snd (pan_i (\<lambda>p t s. (True, s\<lparr>myPanDesired := p, myTiltDesired := t\<rparr>)) 10
      ((ArVCC4_default 0)\<lparr>myTiltDesired := 5\<rparr>))) = 5
   \<and> myPanDesired (snd (panRel_i (\<lambda>p t s. (True, s\<lparr>myPanDesired := p, myTiltDesired := t\<rparr>)) 10
      ((ArVCC4_default 0)\<lparr>myPanDesired := 7, myPan := 50\<rparr>))) = 17"
  using relative_motion_from_desired
    [where s = "(ArVCC4_default 0)\<lparr>myTiltDesired := 5\<rparr>" and A = "{- 30 .. 88}" and deg = 10
       and panTilt_i = "\<lambda>p t s. (True, s\<lparr>myPanDesired := p, myTiltDesired := t\<rparr>)"]
  by (simp add: panRel_i_def)

section \<open>Properties of the unit conversion\<close>

lemma degToUnits_abs: "\<bar>degToUnits deg\<bar> = \<lfloor>\<bar>deg\<bar> / DEGREES_PER_UNIT\<rfloor>"
proof (cases "deg < 0")
  case True
  then have "deg / DEGREES_PER_UNIT < 0" by (simp add: DEGREES_PER_UNIT_def)
  then have "degToUnits deg = \<lceil>deg / DEGREES_PER_UNIT\<rceil>" by (simp add: degToUnits_def truncate_toward_zero_def)
  moreover have "\<lceil>deg / DEGREES_PER_UNIT\<rceil> = - \<lfloor>- (deg / DEGREES_PER_UNIT)\<rfloor>" by (simp add: ceiling_def)
  moreover have "- (deg / DEGREES_PER_UNIT) = \<bar>deg\<bar> / DEGREES_PER_UNIT" using True by simp
  moreover have "0 \<le> \<lfloor>\<bar>deg\<bar> / DEGREES_PER_UNIT\<rfloor>" by (simp add: DEGREES_PER_UNIT_def)
  ultimately show ?thesis by simp
next
  case False
  then have "\<not> deg / DEGREES_PER_UNIT < 0" by (simp add: DEGREES_PER_UNIT_def)
  then have "degToUnits deg = \<lfloor>deg / DEGREES_PER_UNIT\<rfloor>" by (simp add: degToUnits_def truncate_toward_zero_def)
  moreover have "0 \<le> \<lfloor>deg / DEGREES_PER_UNIT\<rfloor>" using False by (simp add: DEGREES_PER_UNIT_def)
  ultimately show ?thesis using False by simp
qed

lemma degToUnits_sign: "0 \<le> deg * of_int (degToUnits deg)"
proof (cases "deg < 0")
  case True
  then have "deg / DEGREES_PER_UNIT < 0" by (simp add: DEGREES_PER_UNIT_def)
  then have "degToUnits deg = \<lceil>deg / DEGREES_PER_UNIT\<rceil>" "\<lceil>deg / DEGREES_PER_UNIT\<rceil> \<le> 0"
    by (simp_all add: degToUnits_def truncate_toward_zero_def ceiling_le_zero)
  then have "real_of_int (degToUnits deg) \<le> 0" by simp
  with True show ?thesis by (simp add: mult_nonpos_nonpos)
next
  case False
  then have "\<not> deg / DEGREES_PER_UNIT < 0" by (simp add: DEGREES_PER_UNIT_def)
  then have "degToUnits deg = \<lfloor>deg / DEGREES_PER_UNIT\<rfloor>" "0 \<le> \<lfloor>deg / DEGREES_PER_UNIT\<rfloor>"
    using False by (simp_all add: degToUnits_def truncate_toward_zero_def DEGREES_PER_UNIT_def)
  then have "0 \<le> real_of_int (degToUnits deg)" by simp
  with False show ?thesis by simp
qed

lemma unitsToDeg_abs: "\<bar>unitsToDeg u\<bar> = of_int \<bar>u\<bar> * DEGREES_PER_UNIT"
  by (simp add: unitsToDeg_def abs_mult DEGREES_PER_UNIT_def)

lemma roundtrip_le: "\<bar>unitsToDeg (degToUnits deg)\<bar> \<le> \<bar>deg\<bar>"
proof -
  have "of_int \<lfloor>\<bar>deg\<bar> / DEGREES_PER_UNIT\<rfloor> \<le> \<bar>deg\<bar> / DEGREES_PER_UNIT" by (rule of_int_floor_le)
  moreover have "0 < DEGREES_PER_UNIT" by (simp add: DEGREES_PER_UNIT_def)
  ultimately have "of_int \<lfloor>\<bar>deg\<bar> / DEGREES_PER_UNIT\<rfloor> * DEGREES_PER_UNIT \<le> \<bar>deg\<bar>"
    by (simp only: pos_le_divide_eq)
  then show ?thesis by (simp add: unitsToDeg_abs degToUnits_abs)
qed

lemma roundtrip_gt: "\<bar>deg\<bar> < \<bar>unitsToDeg (degToUnits deg)\<bar> + DEGREES_PER_UNIT"
proof -
  have "\<bar>deg\<bar> / DEGREES_PER_UNIT < of_int \<lfloor>\<bar>deg\<bar> / DEGREES_PER_UNIT\<rfloor> + 1" by linarith
  moreover have "0 < DEGREES_PER_UNIT" by (simp add: DEGREES_PER_UNIT_def)
  ultimately have "\<bar>deg\<bar> < (of_int \<lfloor>\<bar>deg\<bar> / DEGREES_PER_UNIT\<rfloor> + 1) * DEGREES_PER_UNIT"
    by (simp only: pos_divide_less_eq)
  then show ?thesis by (simp add: unitsToDeg_abs degToUnits_abs algebra_simps)
qed

lemma roundtrip_diff: "\<bar>deg - unitsToDeg (degToUnits deg)\<bar> < DEGREES_PER_UNIT"
proof -
  let ?r = "unitsToDeg (degToUnits deg)"
  have s: "0 \<le> deg * ?r" using degToUnits_sign [of deg]
    by (simp add: unitsToDeg_def DEGREES_PER_UNIT_def zero_le_mult_iff mult_le_0_iff) 
  have le: "\<bar>?r\<bar> \<le> \<bar>deg\<bar>" by (rule roundtrip_le)
  have gt: "\<bar>deg\<bar> < \<bar>?r\<bar> + DEGREES_PER_UNIT" by (rule roundtrip_gt)
  have "\<bar>deg - ?r\<bar> = \<bar>deg\<bar> - \<bar>?r\<bar>"
  proof (cases "0 \<le> deg")
    case True
    then have "0 \<le> ?r \<or> deg = 0" using s by (auto simp: zero_le_mult_iff)
    then show ?thesis using True le by auto
  next
    case False
    then have "?r \<le> 0" using s by (auto simp: zero_le_mult_iff)
    then show ?thesis using False le by auto
  qed
  then show ?thesis using gt by linarith
qed

lemma pan_units_bound:
  assumes "\<bar>deg\<bar> \<le> 98"
  shows "\<bar>degToUnits deg\<bar> \<le> 871"
proof -
  have "\<bar>deg\<bar> / DEGREES_PER_UNIT \<le> 98 / DEGREES_PER_UNIT"
    using assms by (simp add: DEGREES_PER_UNIT_def)
  then have "\<lfloor>\<bar>deg\<bar> / DEGREES_PER_UNIT\<rfloor> \<le> \<lfloor>98 / DEGREES_PER_UNIT\<rfloor>" by (rule floor_mono)
  moreover have "\<lfloor>98 / DEGREES_PER_UNIT\<rfloor> = 871" by (simp add: DEGREES_PER_UNIT_def)
  ultimately show ?thesis by (simp add: degToUnits_abs)
qed

text \<open>
  Claim C3: for every pan angle within the limits -98..98, the number of units is the
  angle divided by 0.1125 and truncated toward zero (its magnitude is the integer part of the
  magnitude of the quotient, and its sign is not opposed to that of the angle), the magnitude
  converted back never exceeds that of the angle, converting back gives an angle less than
  one unit (0.1125 degrees) away, and the magnitude is at most 871 units, within the 875
  units that the header gives as the largest pan assignment.
\<close>

theorem pan_conversion:
  assumes "of_int (Param_val MIN_PAN) \<le> deg" and "deg \<le> of_int (Param_val MAX_PAN)"
  shows "\<bar>degToUnits deg\<bar> = \<lfloor>\<bar>deg\<bar> / (1125 / 10000)\<rfloor>
       \<and> 0 \<le> deg * of_int (degToUnits deg)
       \<and> \<bar>unitsToDeg (degToUnits deg)\<bar> \<le> \<bar>deg\<bar>
       \<and> \<bar>deg - unitsToDeg (degToUnits deg)\<bar> < 1125 / 10000
       \<and> \<bar>degToUnits deg\<bar> \<le> 871"
proof -
  have "\<bar>deg\<bar> \<le> 98" using assms by simp
  then show ?thesis
    using degToUnits_abs [of deg] degToUnits_sign [of deg] roundtrip_le [of deg]
      roundtrip_diff [of deg] pan_units_bound [of deg]
    by (simp add: DEGREES_PER_UNIT_def)
qed

theorem pan_conversion_witness:
  "of_int (Param_val MIN_PAN) \<le> (20 :: real) \<and> (20 :: real) \<le> of_int (Param_val MAX_PAN)
   \<and> degToUnits 20 = 177 \<and> \<bar>20 - unitsToDeg (degToUnits 20)\<bar> < (1125 / 10000 :: real)
   \<and> degToUnits 45 = 400 \<and> unitsToDeg (degToUnits 45) = 45 \<and> degToUnits (- 98) = - 871"
  using pan_conversion [of 20]
  by (simp add: degToUnits_def unitsToDeg_def truncate_toward_zero_def DEGREES_PER_UNIT_def)

section \<open>Properties of the state machine\<close>

subsection \<open>What the steps change\<close>

lemma switchState_sel [simp]:
  "myWaitingOnPacket (switchState st now s) = myWaitingOnPacket s"
  "myCommType (switchState st now s) = myCommType s"
  "myState (switchState st now s) = st"
  "myPreviousState (switchState st now s) = myState s"
  "myStateTime (switchState st now s) = now"
  "myWasError (switchState st now s) = myWasError s"
  "myError (switchState st now s) = myError s"
  "myPan (switchState st now s) = myPan s"
  "myTilt (switchState st now s) = myTilt s"
  "myPanSent (switchState st now s) = myPanSent s"
  "myTiltSent (switchState st now s) = myTiltSent s"
  "myPanDesired (switchState st now s) = myPanDesired s"
  "myTiltDesired (switchState st now s) = myTiltDesired s"
  by (simp_all add: switchState_def)

lemma transmit_sel [simp]:
  "snd (transmit tx st now s) = Transmit tx"
  "myWaitingOnPacket (fst (transmit tx st now s)) = True"
  "myCommType (fst (transmit tx st now s)) = myCommType s"
  "myState (fst (transmit tx st now s)) = st"
  "myStateTime (fst (transmit tx st now s)) = now"
  "myWasError (fst (transmit tx st now s)) = myWasError s"
  "myError (fst (transmit tx st now s)) = myError s"
  "myPan (fst (transmit tx st now s)) = myPan s"
  "myTilt (fst (transmit tx st now s)) = myTilt s"
  "myPanSent (fst (transmit tx st now s)) = myPanSent s"
  "myTiltSent (fst (transmit tx st now s)) = myTiltSent s"
  "myPanDesired (fst (transmit tx st now s)) = myPanDesired s"
  "myTiltDesired (fst (transmit tx st now s)) = myTiltDesired s"
  by (simp_all add: transmit_def)

lemmas send_defs = sendPanTilt_def sendZoom_def sendPanSlew_def sendTiltSlew_def


lemma dispatch_mode: "myCommType (fst (dispatch now s)) = myCommType s"
  by (simp add: dispatch_def send_defs)

lemma errorStep_flag:
  "snd (errorStep now s) = NoAction"
  "myWaitingOnPacket (fst (errorStep now s)) = myWaitingOnPacket s"
  "myCommType (fst (errorStep now s)) = myCommType s"
  by (simp_all add: errorStep_def throwError_def)


lemma actStep_mode: "myCommType (fst (actStep now s)) = myCommType s"
  by (simp add: actStep_def errorStep_flag dispatch_mode send_defs split: State.split)

lemma confirm_sel [simp]:
  "myWaitingOnPacket (confirm st resp s) = myWaitingOnPacket s"
  "myCommType (confirm st resp s) = myCommType s"
  by (cases st; simp split: option.split Answer.split Payload.split)+


lemma awaitStep_mode: "myCommType (fst (awaitStep now resp s)) = detectMode now resp s"
  by (simp add: awaitStep_def Let_def split: Outcome.split)

lemma detectMode_wasError [simp]: "detectMode now resp (s\<lparr>myWasError := b\<rparr>) = detectMode now resp s"
  by (simp add: detectMode_def)

lemma camTask_mode:
  "myCommType (fst (camTask now resp s)) =
     (if myWaitingOnPacket s then detectMode now resp s else myCommType s)"
  by (simp add: camTask_def awaitStep_mode actStep_mode)


lemma change_sel [simp]:
  "myWaitingOnPacket (change c s) = myWaitingOnPacket s"
  "myCommType (change c s) = myCommType s"
  "myState (change c s) = myState s"
  by (cases c; simp add: panSlew_def tiltSlew_def power_VCC4_def setAutoFocus_def
      focusNear_def focusFar_def haltPanTilt_def haltZoom_def init_def getRealPanTilt_def
      getRealZoomPos_def enableAutoUpdate_def disableAutoUpdate_def setLEDControlMode_def
      enableIRLEDs_def disableIRLEDs_def enableIRFilterMode_def disableIRFilterMode_def)+



lemma bidirectional_kept: "myCommType s = COMM_BIDIRECTIONAL \<Longrightarrow> myCommType (final es s) = COMM_BIDIRECTIONAL"
proof (induction es arbitrary: s)
  case Nil
  then show ?case by simp
next
  case (Cons e es)
  have "myCommType (step e s) = COMM_BIDIRECTIONAL"
    using Cons.prems by (cases e) (simp_all add: camTask_mode detectMode_def)
  then show ?case using Cons.IH by simp
qed

lemma unidirectional_kept: "myCommType s = COMM_UNIDIRECTIONAL \<Longrightarrow> myCommType (final es s) = COMM_UNIDIRECTIONAL"
proof (induction es arbitrary: s)
  case Nil
  then show ?case by simp
next
  case (Cons e es)
  have "myCommType (step e s) = COMM_UNIDIRECTIONAL"
    using Cons.prems by (cases e) (simp_all add: camTask_mode detectMode_def)
  then show ?case using Cons.IH by simp
qed

lemma camTask_idle_mode: "\<not> myWaitingOnPacket s \<Longrightarrow> myCommType (fst (camTask now resp s)) = myCommType s"
  by (simp add: camTask_mode)

lemma awaitStep_unidirectional:
  "myCommType s = COMM_UNIDIRECTIONAL \<Longrightarrow> awaitStep now resp s = awaitStep now None s"
  by (simp add: awaitStep_def detectMode_def Let_def)

lemma camTask_unidirectional:
  "myCommType s = COMM_UNIDIRECTIONAL \<Longrightarrow> camTask now resp s = camTask now None s"
  using awaitStep_unidirectional [of "s\<lparr>myWasError := False\<rparr>" now resp]
  by (simp add: camTask_def)

lemma camTask_unidirectional_resolves:
  "myCommType s = COMM_UNIDIRECTIONAL \<Longrightarrow> myWaitingOnPacket s \<Longrightarrow>
   UNIDIRECTIONAL_TIMEOUT \<le> now - myStateTime s \<Longrightarrow> snd (camTask now resp s) = Resolve"
  by (simp add: camTask_def awaitStep_def detectMode_def outcome_def Let_def)



lemma camTask_sends_pan_tilt:
  "\<not> myWaitingOnPacket s \<Longrightarrow> myState s = POWERED_ON \<Longrightarrow> \<not> myHaltPanTiltRequested s \<Longrightarrow>
   \<not> myHaltZoomRequested s \<Longrightarrow> myPowerStateDesired s \<Longrightarrow> panTiltDivergent s \<Longrightarrow>
   camTask now resp s =
     transmit (TxPanTilt (myPanDesired s) (myTiltDesired s)) AWAITING_PAN_TILT_RESPONSE now
       (s\<lparr>myWasError := False, myPanSent := myPanDesired s, myTiltSent := myTiltDesired s\<rparr>)"
  by (simp add: camTask_def actStep_def dispatch_def sendPanTilt_def panTiltDivergent_def)

lemma detection_started:
  "myCommType (final [Cycle 0 None, Cycle 100 None] (ArVCC4_default 0)) = COMM_UNKNOWN
   \<and> myWaitingOnPacket (final [Cycle 0 None, Cycle 100 None] (ArVCC4_default 0))
   \<and> myStateTime (final [Cycle 0 None, Cycle 100 None] (ArVCC4_default 0)) = 100
   \<and> actions [Cycle 0 None, Cycle 100 None] (ArVCC4_default 0) = [NoAction, Transmit TxInit]"
  by (simp add: camTask_def actStep_def transmit_def switchState_def ArVCC4_default_def
      ArVCC4_ctor_def)

subsection \<open>The communication mode\<close>

text \<open>
  Claim C1: a driver constructed with the default arguments starts in the unknown mode. The
  mode changes only while a command is in flight and the mode is unknown: a response makes it
  bidirectional, no response leaves it unknown until \<open>BIDIRECTIONAL_TIMEOUT\<close> (5000 ms)
  has passed since the command was sent, and makes it unidirectional from then on. A
  bidirectional mode stays bidirectional over every run of cycles and caller requests. A
  unidirectional mode stays unidirectional, a cycle does the same with or without a
  response, a command in flight is settled once \<open>UNIDIRECTIONAL_TIMEOUT\<close> has passed, and
  commands are still sent (a divergent pan/tilt is transmitted from the steady state).
\<close>

theorem communication_mode_lifecycle:
  "myCommType (ArVCC4_default robot) = COMM_UNKNOWN
   \<and> (\<not> myWaitingOnPacket s \<longrightarrow> myCommType (fst (camTask now resp s)) = myCommType s)
   \<and> (myCommType s = COMM_UNKNOWN \<and> myWaitingOnPacket s \<longrightarrow>
        myCommType (fst (camTask now (Some a) s)) = COMM_BIDIRECTIONAL
      \<and> myCommType (fst (camTask now None s)) =
          (if BIDIRECTIONAL_TIMEOUT \<le> now - myStateTime s then COMM_UNIDIRECTIONAL
           else COMM_UNKNOWN))
   \<and> (myCommType s = COMM_BIDIRECTIONAL \<longrightarrow> myCommType (final es s) = COMM_BIDIRECTIONAL)
   \<and> (myCommType s = COMM_UNIDIRECTIONAL \<longrightarrow>
        myCommType (final es s) = COMM_UNIDIRECTIONAL
      \<and> camTask now resp s = camTask now None s
      \<and> (myWaitingOnPacket s \<and> UNIDIRECTIONAL_TIMEOUT \<le> now - myStateTime s \<longrightarrow>
           snd (camTask now resp s) = Resolve)
      \<and> (\<not> myWaitingOnPacket s \<and> myState s = POWERED_ON \<and> \<not> myHaltPanTiltRequested s
           \<and> \<not> myHaltZoomRequested s \<and> myPowerStateDesired s \<and> panTiltDivergent s \<longrightarrow>
           snd (camTask now resp s) = Transmit (TxPanTilt (myPanDesired s) (myTiltDesired s))))"
proof -
  have "myCommType (ArVCC4_default robot) = COMM_UNKNOWN"
    by (simp add: ArVCC4_default_def ArVCC4_ctor_def)
  moreover have "\<not> myWaitingOnPacket s \<longrightarrow> myCommType (fst (camTask now resp s)) = myCommType s"
    by (simp add: camTask_mode)
  moreover have "myCommType s = COMM_UNKNOWN \<and> myWaitingOnPacket s \<longrightarrow>
        myCommType (fst (camTask now (Some a) s)) = COMM_BIDIRECTIONAL
      \<and> myCommType (fst (camTask now None s)) =
          (if BIDIRECTIONAL_TIMEOUT \<le> now - myStateTime s then COMM_UNIDIRECTIONAL
           else COMM_UNKNOWN)"
    by (simp add: camTask_mode detectMode_def)
  moreover have "myCommType s = COMM_BIDIRECTIONAL \<longrightarrow> myCommType (final es s) = COMM_BIDIRECTIONAL"
    by (simp add: bidirectional_kept)
  moreover have "myCommType s = COMM_UNIDIRECTIONAL \<longrightarrow> myCommType (final es s) = COMM_UNIDIRECTIONAL"
    by (simp add: unidirectional_kept)
  moreover have "myCommType s = COMM_UNIDIRECTIONAL \<longrightarrow> camTask now resp s = camTask now None s"
    using camTask_unidirectional [of s now resp] by blast
  moreover have "myCommType s = COMM_UNIDIRECTIONAL \<longrightarrow>
      (myWaitingOnPacket s \<and> UNIDIRECTIONAL_TIMEOUT \<le> now - myStateTime s \<longrightarrow>
           snd (camTask now resp s) = Resolve)"
    using camTask_unidirectional_resolves [of s now resp] by blast
  moreover have "\<not> myWaitingOnPacket s \<and> myState s = POWERED_ON \<and> \<not> myHaltPanTiltRequested s
           \<and> \<not> myHaltZoomRequested s \<and> myPowerStateDesired s \<and> panTiltDivergent s \<longrightarrow>
           snd (camTask now resp s) = Transmit (TxPanTilt (myPanDesired s) (myTiltDesired s))"
    using camTask_sends_pan_tilt [of s now resp] by simp
  ultimately show ?thesis by blast
qed

theorem communication_mode_lifecycle_witness:
  "myCommType (final [Cycle 0 None, Cycle 100 None, Cycle 2600 None] (ArVCC4_default 0))
     = COMM_UNKNOWN
   \<and> myCommType (final [Cycle 0 None, Cycle 100 None, Cycle 5100 None] (ArVCC4_default 0))
     = COMM_UNIDIRECTIONAL
   \<and> myCommType (final [Cycle 0 None, Cycle 100 None, Cycle 5100 None,
        Cycle 5200 (Some (Answer 0x30 NoData)), Cycle 5300 None] (ArVCC4_default 0))
     = COMM_UNIDIRECTIONAL
   \<and> myCommType (final [Cycle 0 None, Cycle 100 None, Cycle 200 (Some (Answer 0x30 NoData)),
        Cycle 300 None, Cycle 9000 None] (ArVCC4_default 0))
     = COMM_BIDIRECTIONAL"
proof -
  let ?s = "final [Cycle 0 None, Cycle 100 None] (ArVCC4_default 0)"
  have s: "myCommType ?s = COMM_UNKNOWN" "myWaitingOnPacket ?s" "myStateTime ?s = 100"
    using detection_started by blast+
  have window:
    "myCommType (fst (camTask 2600 None ?s)) = COMM_UNKNOWN"
    "myCommType (fst (camTask 5100 None ?s)) = COMM_UNIDIRECTIONAL"
    "myCommType (fst (camTask 200 (Some (Answer 0x30 NoData)) ?s)) = COMM_BIDIRECTIONAL"
    using s communication_mode_lifecycle [of 0 ?s 2600 None "Answer 0x30 NoData" "[]"]
      communication_mode_lifecycle [of 0 ?s 5100 None "Answer 0x30 NoData" "[]"]
      communication_mode_lifecycle [of 0 ?s 200 None "Answer 0x30 NoData" "[]"]
    by (simp_all add: BIDIRECTIONAL_TIMEOUT_def)
  have "myCommType (final [Cycle 5200 (Some (Answer 0x30 NoData)), Cycle 5300 None]
          (fst (camTask 5100 None ?s))) = COMM_UNIDIRECTIONAL"
    using window(2)
      communication_mode_lifecycle [of 0 "fst (camTask 5100 None ?s)" 0 None "Answer 0x30 NoData"
        "[Cycle 5200 (Some (Answer 0x30 NoData)), Cycle 5300 None]"]
    by blast
  moreover have "myCommType (final [Cycle 300 None, Cycle 9000 None]
          (fst (camTask 200 (Some (Answer 0x30 NoData)) ?s))) = COMM_BIDIRECTIONAL"
    using window(3)
      communication_mode_lifecycle [of 0 "fst (camTask 200 (Some (Answer 0x30 NoData)) ?s)" 0 None
        "Answer 0x30 NoData" "[Cycle 300 None, Cycle 9000 None]"]
    by blast
  ultimately show ?thesis using window(1,2) by simp
qed

subsection \<open>Evaluating runs\<close>




lemma final_append: "final (es @ fs) s = final fs (final es s)"
  by (induction es arbitrary: s) simp_all

lemma cycles_simps [simp]:
  "cycles [] = []"
  "cycles ((now, resp) # cs) = Cycle now resp # cycles cs"
  by (simp_all add: cycles_def)

subsection \<open>Commands in flight\<close>





lemma panTiltDivergent_wasError [simp]:
  "panTiltDivergent (s\<lparr>myWasError := b\<rparr>) = panTiltDivergent s"
  by (simp add: panTiltDivergent_def)



text \<open>
  The desired pan and tilt are the caller's: no step writes them. The Sent pan and tilt are
  written by the one step that transmits a pan/tilt command, which carries the desired
  values.
\<close>

lemma confirm_pan [simp]:
  "myPanDesired (confirm st resp s) = myPanDesired s"
  "myTiltDesired (confirm st resp s) = myTiltDesired s"
  "myPanSent (confirm st resp s) = myPanSent s"
  "myTiltSent (confirm st resp s) = myTiltSent s"
  by (cases st; simp split: option.split Answer.split Payload.split)+












subsection \<open>Error responses\<close>







subsection \<open>Tolerance\<close>

lemma zoomDivergent_wasError [simp]:
  "zoomDivergent (s\<lparr>myWasError := b\<rparr>) = zoomDivergent s"
  by (simp add: zoomDivergent_def)








end
